theory Spec2Isabelle
  imports Main
begin

section \<open>The streaming session server of funasr\_wss\_server.py\<close>

text \<open>
  The development embeds the per-connection handler \<open>ws_serve\<close> and the three pass
  functions \<open>process_vad\<close>, \<open>process_asr_offline\<close> and \<open>process_asr_online\<close> of
  \<^verbatim>\<open>runtime/python/websocket/funasr_wss_server.py\<close>.

  The inference engines, \<open>json.loads\<close> and \<open>int()\<close> on strings are library code: they
  are parameters of the model (the record \<open>env\<close>); \<open>loads\<close> returns the decoded value
  or the exception that \<open>json.loads\<close> raises. Every exception the handler can raise
  is a value of type \<open>exn\<close>; a step of the receive loop returns \<open>Inl e\<close> when the
  exception reaches the handlers around the loop (lines 313-316), which end the session.
  Sending on the connection is taken to succeed, and the models are taken to be loaded
  (lines 179-185). What a step does that a client or an engine can observe is returned as
  a list of events, in program order.
\<close>

subsection \<open>Values\<close>

text \<open>A decoded JSON value (numbers are the integers; floats are not modelled).\<close>

datatype json =
    JNull
  | JBool bool
  | JInt int
  | JStr string
  | JArr "json list"
  | JObj "(string \<times> json) list"

text \<open>A byte is a natural number below 256; nothing below depends on the bound.\<close>

type_synonym bytes = "nat list"

text \<open>An engine cache is a Python dict; \<open>{}\<close> is the empty list.\<close>

type_synonym cache = "(string \<times> json) list"

datatype exn =
    ZeroDivisionError
  | TypeError
  | ValueError
  | AttributeError
  | UnboundLocalError
  | JSONDecodeError
  | RecursionError
  | EngineError string

datatype message = Text string | Binary bytes

text \<open>
  Events: a message sent to the client, the entry into one of the two pass functions
  (with its \<open>audio_in\<close>), and each call of an engine's \<open>generate\<close>.
\<close>

datatype event =
    Send_pong
  | Send_result json string json json
  | Call_offline bytes
  | Call_online bytes
  | Gen_asr bytes
  | Gen_online bytes
  | Gen_vad bytes
  | Gen_punc string

subsection \<open>Session state\<close>

text \<open>
  The attributes that \<open>ws_serve\<close> puts on the connection object (lines 190-198)
  and its local variables (lines 199-203). \<open>speech_start_i\<close> is not assigned before
  the loop: \<open>None\<close> is the unbound local.
\<close>

record session =
  status_dict_asr :: "json option"
  asr_online_cache :: cache
  asr_online_is_final :: bool
  asr_online_chunk_size :: "int list"
  vad_cache :: cache
  punc_cache :: cache
  chunk_interval :: json
  vad_pre_idx :: int
  wav_name :: json
  mode :: json
  is_speaking :: json
  speech_start :: bool
  speech_start_i :: "int option"
  speech_end_i :: int
  frames :: "bytes list"
  frames_asr :: "bytes list"
  frames_asr_online :: "bytes list"

record env =
  loads :: "string \<Rightarrow> exn + json"
  int_of_str :: "string \<Rightarrow> int option"
  model_asr :: "bytes \<Rightarrow> json option \<Rightarrow> exn + string"
  model_asr_streaming :: "bytes \<Rightarrow> cache \<Rightarrow> bool \<Rightarrow> int list \<Rightarrow> (exn + string) \<times> cache"
  model_vad :: "bytes \<Rightarrow> cache \<Rightarrow> (exn + (int \<times> int) list) \<times> cache"
  model_punc :: "(string \<Rightarrow> cache \<Rightarrow> (exn + string) \<times> cache) option"

definition init_session :: session where
  "init_session = \<lparr>
     status_dict_asr = None,
     asr_online_cache = [],
     asr_online_is_final = False,
     asr_online_chunk_size = [5, 10, 5],
     vad_cache = [],
     punc_cache = [],
     chunk_interval = JInt 10,
     vad_pre_idx = 0,
     wav_name = JStr ''microphone'',
     mode = JStr ''2pass'',
     is_speaking = JBool True,
     speech_start = False,
     speech_start_i = None,
     speech_end_i = - 1,
     frames = [],
     frames_asr = [],
     frames_asr_online = [] \<rparr>"

subsection \<open>Python operators on JSON values\<close>

text \<open>Truth value of a JSON value, as \<open>not x\<close> and \<open>if x\<close> read it.\<close>

fun truthy :: "json \<Rightarrow> bool" where
  "truthy JNull = False"
| "truthy (JBool b) = b"
| "truthy (JInt i) = (i \<noteq> 0)"
| "truthy (JStr s) = (s \<noteq> [])"
| "truthy (JArr xs) = (xs \<noteq> [])"
| "truthy (JObj kv) = (kv \<noteq> [])"

fun is_infix :: "'a list \<Rightarrow> 'a list \<Rightarrow> bool" where
  "is_infix p [] = (p = [])"
| "is_infix p (x # xs) = (take (length p) (x # xs) = p \<or> is_infix p xs)"

text \<open>\<open>"2pass" in m\<close>: substring of a str, member of a list, key of a dict.\<close>

fun py_in_2pass :: "json \<Rightarrow> exn + bool" where
  "py_in_2pass (JStr m) = Inr (is_infix ''2pass'' m)"
| "py_in_2pass (JArr xs) = Inr (JStr ''2pass'' \<in> set xs)"
| "py_in_2pass (JObj kv) = Inr (''2pass'' \<in> set (map fst kv))"
| "py_in_2pass _ = Inl TypeError"

text \<open>\<open>n % d\<close> for an int \<open>n\<close>; a bool divisor is the int 0 or 1.\<close>

fun py_mod :: "int \<Rightarrow> json \<Rightarrow> exn + int" where
  "py_mod n (JInt d) = (if d = 0 then Inl ZeroDivisionError else Inr (n mod d))"
| "py_mod n (JBool b) = (if b then Inr (n mod 1) else Inl ZeroDivisionError)"
| "py_mod n _ = Inl TypeError"

subsection \<open>The pass functions\<close>

text \<open>\<open>process_vad\<close> (lines 108-123), after the engine has returned its segments.\<close>

definition vad_offsets :: "(int \<times> int) list \<Rightarrow> int \<times> int" where
  "vad_offsets segments_result =
     (if length segments_result = 1
      then ((if fst (hd segments_result) \<noteq> - 1 then fst (hd segments_result) else - 1),
            (if snd (hd segments_result) \<noteq> - 1 then snd (hd segments_result) else - 1))
      else (- 1, - 1))"

definition process_vad :: "env \<Rightarrow> session \<Rightarrow> bytes \<Rightarrow> (exn + int \<times> int) \<times> session \<times> event list" where
  "process_vad E s audio_in =
     (case model_vad E audio_in (vad_cache s) of
        (Inl e, c) \<Rightarrow> (Inl e, s\<lparr>vad_cache := c\<rparr>, [Gen_vad audio_in])
      | (Inr segments_result, c) \<Rightarrow>
          (Inr (vad_offsets segments_result), s\<lparr>vad_cache := c\<rparr>, [Gen_vad audio_in]))"

text \<open>The result message of lines 139-149, or the exception of \<open>"2pass" in mode\<close>.\<close>

definition offline_message :: "session \<Rightarrow> string \<Rightarrow> exn + event" where
  "offline_message s text =
     (case py_in_2pass (mode s) of
        Inl e \<Rightarrow> Inl e
      | Inr b \<Rightarrow>
          Inr (Send_result (if b then JStr ''2pass-offline'' else mode s) text (wav_name s)
                 (if mode s = JStr ''offline'' then JBool True else is_speaking s)))"

definition process_asr_offline :: "env \<Rightarrow> session \<Rightarrow> bytes \<Rightarrow> (exn + unit) \<times> session \<times> event list" where
  "process_asr_offline E s audio_in =
     (if length audio_in = 0 then (Inr (), s, [Call_offline audio_in])
      else
        (case model_asr E audio_in (status_dict_asr s) of
           Inl e \<Rightarrow> (Inl e, s, [Call_offline audio_in, Gen_asr audio_in])
         | Inr text \<Rightarrow>
            (case (if model_punc E \<noteq> None \<and> length text > 0
                   then (case the (model_punc E) text (punc_cache s) of
                           (r, c) \<Rightarrow> (r, s\<lparr>punc_cache := c\<rparr>, [Gen_punc text]))
                   else (Inr text, s, [])) of
               (Inl e, s1, ev) \<Rightarrow> (Inl e, s1, [Call_offline audio_in, Gen_asr audio_in] @ ev)
             | (Inr text1, s1, ev) \<Rightarrow>
                 (if length text1 > 0
                  then (case offline_message s1 text1 of
                          Inl e \<Rightarrow> (Inl e, s1, [Call_offline audio_in, Gen_asr audio_in] @ ev)
                        | Inr m \<Rightarrow>
                            (Inr (), s1, [Call_offline audio_in, Gen_asr audio_in] @ ev @ [m]))
                  else (Inr (), s1, [Call_offline audio_in, Gen_asr audio_in] @ ev)))))"

definition online_message :: "session \<Rightarrow> string \<Rightarrow> exn + event" where
  "online_message s text =
     (case py_in_2pass (mode s) of
        Inl e \<Rightarrow> Inl e
      | Inr b \<Rightarrow>
          Inr (Send_result (if b then JStr ''2pass-online'' else mode s) text (wav_name s)
                 (is_speaking s)))"

definition process_asr_online :: "env \<Rightarrow> session \<Rightarrow> bytes \<Rightarrow> (exn + unit) \<times> session \<times> event list" where
  "process_asr_online E s audio_in =
     (if length audio_in = 0 then (Inr (), s, [Call_online audio_in])
      else
        (case model_asr_streaming E audio_in (asr_online_cache s) (asr_online_is_final s)
                (asr_online_chunk_size s) of
           (Inl e, c) \<Rightarrow>
             (Inl e, s\<lparr>asr_online_cache := c\<rparr>, [Call_online audio_in, Gen_online audio_in])
         | (Inr text, c) \<Rightarrow>
             (if length text > 0
              then (case online_message (s\<lparr>asr_online_cache := c\<rparr>) text of
                      Inl e \<Rightarrow>
                        (Inl e, s\<lparr>asr_online_cache := c\<rparr>,
                         [Call_online audio_in, Gen_online audio_in])
                    | Inr m \<Rightarrow>
                        (Inr (), s\<lparr>asr_online_cache := c\<rparr>,
                         [Call_online audio_in, Gen_online audio_in, m]))
              else (Inr (), s\<lparr>asr_online_cache := c\<rparr>,
                    [Call_online audio_in, Gen_online audio_in]))))"

subsection \<open>Control messages\<close>

text \<open>\<open>s.split(",")\<close>.\<close>

fun split_comma :: "string \<Rightarrow> string list" where
  "split_comma [] = [[]]"
| "split_comma (c # cs) =
     (if c = CHR '','' then [] # split_comma cs
      else (case split_comma cs of
              [] \<Rightarrow> [[c]]
            | w # ws \<Rightarrow> (c # w) # ws))"

text \<open>\<open>int(x)\<close> for a decoded JSON value.\<close>

fun py_int :: "env \<Rightarrow> json \<Rightarrow> exn + int" where
  "py_int E (JInt i) = Inr i"
| "py_int E (JBool b) = Inr (if b then 1 else 0)"
| "py_int E (JStr x) = (case int_of_str E x of None \<Rightarrow> Inl ValueError | Some i \<Rightarrow> Inr i)"
| "py_int E _ = Inl TypeError"

text \<open>The comprehension \<open>[int(x) for x in xs]\<close>: the first exception ends it.\<close>

fun py_int_list :: "env \<Rightarrow> json list \<Rightarrow> exn + int list" where
  "py_int_list E [] = Inr []"
| "py_int_list E (x # xs) =
     (case py_int E x of
        Inl e \<Rightarrow> Inl e
      | Inr i \<Rightarrow> (case py_int_list E xs of Inl e \<Rightarrow> Inl e | Inr is \<Rightarrow> Inr (i # is)))"

text \<open>Lines 247-250: what the comprehension iterates over.\<close>

fun chunk_size_items :: "json \<Rightarrow> exn + json list" where
  "chunk_size_items (JStr x) = Inr (map JStr (split_comma x))"
| "chunk_size_items (JArr xs) = Inr xs"
| "chunk_size_items (JObj kv) = Inr (map (JStr \<circ> fst) kv)"
| "chunk_size_items _ = Inl TypeError"

text \<open>
  The reset of lines 234-240, after the client has declared \<open>is_speaking\<close> false.
\<close>

definition client_stop_reset :: "session \<Rightarrow> session" where
  "client_stop_reset s =
     s\<lparr>frames_asr := [], speech_start := False, frames_asr_online := [],
       asr_online_cache := [], vad_pre_idx := 0, frames := [], vad_cache := []\<rparr>"

text \<open>
  Lines 224-240: the flush on \<open>is_speaking = false\<close>. An exception of the offline
  pass is caught at line 231; the reset follows in either case.
\<close>

definition client_stop_flush :: "env \<Rightarrow> session \<Rightarrow> session \<times> event list" where
  "client_stop_flush E s =
     (if \<not> truthy (is_speaking s) \<and> frames_asr s \<noteq> []
      then (case (if mode s = JStr ''2pass'' \<or> mode s = JStr ''offline''
                  then (case process_asr_offline E s (concat (frames_asr s)) of
                          (r, s1, ev) \<Rightarrow> (s1, ev))
                  else (s, [])) of
              (s1, ev) \<Rightarrow> (client_stop_reset s1, ev))
      else (s, []))"

text \<open>Lines 218-240.\<close>

definition on_is_speaking :: "env \<Rightarrow> (string \<times> json) list \<Rightarrow> session \<Rightarrow> session \<times> event list" where
  "on_is_speaking E messagejson s =
     (case map_of messagejson ''is_speaking'' of
        None \<Rightarrow> (s, [])
      | Some v \<Rightarrow>
          client_stop_flush E (s\<lparr>is_speaking := v, asr_online_is_final := \<not> truthy v\<rparr>))"

text \<open>Lines 242-254: the other keys, in the order of the source.\<close>

definition on_settings :: "env \<Rightarrow> (string \<times> json) list \<Rightarrow> session \<Rightarrow> exn + session" where
  "on_settings E messagejson s =
     (let s1 = (case map_of messagejson ''chunk_interval'' of
                  None \<Rightarrow> s | Some v \<Rightarrow> s\<lparr>chunk_interval := v\<rparr>);
          s2 = (case map_of messagejson ''wav_name'' of
                  None \<Rightarrow> s1 | Some v \<Rightarrow> s1\<lparr>wav_name := v\<rparr>)
      in (case (case map_of messagejson ''chunk_size'' of
                  None \<Rightarrow> Inr s2
                | Some v \<Rightarrow>
                    (case chunk_size_items v of
                       Inl e \<Rightarrow> Inl e
                     | Inr xs \<Rightarrow>
                         (case py_int_list E xs of
                            Inl e \<Rightarrow> Inl e
                          | Inr is \<Rightarrow> Inr (s2\<lparr>asr_online_chunk_size := is\<rparr>)))) of
            Inl e \<Rightarrow> Inl e
          | Inr s3 \<Rightarrow>
              (let s4 = (case map_of messagejson ''hotwords'' of
                           None \<Rightarrow> s3 | Some v \<Rightarrow> s3\<lparr>status_dict_asr := Some v\<rparr>)
               in Inr (case map_of messagejson ''mode'' of
                         None \<Rightarrow> s4 | Some v \<Rightarrow> s4\<lparr>mode := v\<rparr>))))"

text \<open>
  Lines 207-257. A decoded value that is not a dict has no \<open>get\<close>: AttributeError,
  which only the handlers around the loop catch.
\<close>

fun on_json :: "env \<Rightarrow> session \<Rightarrow> json \<Rightarrow> (exn + session) \<times> event list" where
  "on_json E s (JObj messagejson) =
     (if map_of messagejson ''type'' = Some (JStr ''ping'') then (Inr s, [Send_pong])
      else (case on_is_speaking E messagejson s of
              (s1, ev) \<Rightarrow> (on_settings E messagejson s1, ev)))"
| "on_json E s _ = (Inl AttributeError, [])"

text \<open>
  Lines 207-257, the text branch. Line 255 catches \<open>json.JSONDecodeError\<close> only and
  goes on with the next message; any other exception of \<open>json.loads\<close> (RecursionError
  on deeply nested text) reaches the handlers around the loop.
\<close>

definition on_text :: "env \<Rightarrow> session \<Rightarrow> string \<Rightarrow> (exn + session) \<times> event list" where
  "on_text E s message =
     (case loads E message of
        Inl e \<Rightarrow> (if e = JSONDecodeError then (Inr s, []) else (Inl e, []))
      | Inr messagejson \<Rightarrow> on_json E s messagejson)"

subsection \<open>Audio frames\<close>

text \<open>Lines 262-270: the frame is appended to the three buffers.\<close>

definition accumulate :: "session \<Rightarrow> bytes \<Rightarrow> session" where
  "accumulate s message =
     s\<lparr>frames := frames s @ [message],
       frames_asr := frames_asr s @ [message],
       vad_pre_idx := vad_pre_idx s + int (length message) div 32,
       frames_asr_online := frames_asr_online s @ [message],
       asr_online_is_final := (speech_end_i s \<noteq> - 1)\<rparr>"

text \<open>The condition of lines 273-274; the modulo is evaluated first.\<close>

definition online_trigger :: "session \<Rightarrow> exn + bool" where
  "online_trigger s =
     (case py_mod (int (length (frames_asr_online s))) (chunk_interval s) of
        Inl e \<Rightarrow> Inl e
      | Inr r \<Rightarrow> Inr (r = 0 \<or> asr_online_is_final s))"

text \<open>Lines 275-281, entered when the condition holds.\<close>

definition online_block :: "env \<Rightarrow> session \<Rightarrow> session \<times> event list" where
  "online_block E s =
     (case (if mode s = JStr ''2pass'' \<or> mode s = JStr ''online''
            then (case process_asr_online E s (concat (frames_asr_online s)) of
                    (r, s1, ev) \<Rightarrow> (s1, ev))
            else (s, [])) of
        (s1, ev) \<Rightarrow> (s1\<lparr>frames_asr_online := []\<rparr>, ev))"

text \<open>
  Lines 284-287: when \<open>process_vad\<close> raises, the two offsets keep their values.
\<close>

definition vad_block :: "env \<Rightarrow> session \<Rightarrow> bytes \<Rightarrow> session \<times> event list" where
  "vad_block E s message =
     (case process_vad E s message of
        (Inl e, s1, ev) \<Rightarrow> (s1, ev)
      | (Inr (b, e), s1, ev) \<Rightarrow> (s1\<lparr>speech_start_i := Some b, speech_end_i := e\<rparr>, ev))"

text \<open>Lines 307-311.\<close>

definition vad_end_reset :: "session \<Rightarrow> session" where
  "vad_end_reset s =
     s\<lparr>frames_asr := [], speech_start := False, frames_asr_online := [],
       asr_online_cache := [], frames := drop (length (frames s) - 20) (frames s)\<rparr>"

text \<open>Lines 297-311, entered when \<open>speech_end_i\<close> is not -1.\<close>

definition vad_end_flush :: "env \<Rightarrow> session \<Rightarrow> session \<times> event list" where
  "vad_end_flush E s =
     (case (if mode s = JStr ''2pass'' \<or> mode s = JStr ''offline''
            then (case process_asr_offline E s (concat (frames_asr s)) of
                    (r, s1, ev) \<Rightarrow> (s1, ev))
            else (s, [])) of
        (s1, ev) \<Rightarrow> (vad_end_reset s1, ev))"

text \<open>Lines 289-311: reading the unbound \<open>speech_start_i\<close> raises.\<close>

definition after_vad :: "env \<Rightarrow> session \<Rightarrow> (exn + session) \<times> event list" where
  "after_vad E s =
     (case speech_start_i s of
        None \<Rightarrow> (Inl UnboundLocalError, [])
      | Some b \<Rightarrow>
          (let s1 = (if b \<noteq> - 1 then s\<lparr>speech_start := True\<rparr> else s);
               s2 = (if speech_end_i s1 \<noteq> - 1 then s1\<lparr>speech_start := False\<rparr> else s1)
           in if speech_end_i s2 \<noteq> - 1
              then (case vad_end_flush E s2 of (s3, ev) \<Rightarrow> (Inr s3, ev))
              else (Inr s2, [])))"

text \<open>Lines 260-311.\<close>

definition on_binary :: "env \<Rightarrow> session \<Rightarrow> bytes \<Rightarrow> (exn + session) \<times> event list" where
  "on_binary E s message =
     (let s1 = accumulate s message
      in (case online_trigger s1 of
            Inl e \<Rightarrow> (Inl e, [])
          | Inr fire \<Rightarrow>
              (case (if fire then online_block E s1 else (s1, [])) of
                 (s2, ev2) \<Rightarrow>
                   (case vad_block E s2 message of
                      (s3, ev3) \<Rightarrow>
                        (case after_vad E s3 of
                           (r, ev4) \<Rightarrow> (r, ev2 @ ev3 @ ev4))))))"

subsection \<open>The receive loop\<close>

fun step :: "env \<Rightarrow> session \<Rightarrow> message \<Rightarrow> (exn + session) \<times> event list" where
  "step E s (Text message) = on_text E s message"
| "step E s (Binary message) = on_binary E s message"

text \<open>
  The body of \<open>async for message in websocket\<close> over the messages received: an
  exception ends the loop, the messages after it are not processed.
\<close>

fun ws_loop :: "env \<Rightarrow> session \<Rightarrow> message list \<Rightarrow> (exn + session) \<times> event list" where
  "ws_loop E s [] = (Inr s, [])"
| "ws_loop E s (m # ms) =
     (case step E s m of
        (Inl e, ev) \<Rightarrow> (Inl e, ev)
      | (Inr s1, ev) \<Rightarrow> (case ws_loop E s1 ms of (r, ev1) \<Rightarrow> (r, ev @ ev1)))"

definition ws_serve :: "env \<Rightarrow> message list \<Rightarrow> (exn + session) \<times> event list" where
  "ws_serve E ms = ws_loop E init_session ms"

subsection \<open>Reading the events\<close>

fun is_call_online :: "event \<Rightarrow> bool" where
  "is_call_online (Call_online a) = True"
| "is_call_online _ = False"

fun is_call_offline :: "event \<Rightarrow> bool" where
  "is_call_offline (Call_offline a) = True"
| "is_call_offline _ = False"

fun is_gen_asr :: "event \<Rightarrow> bool" where
  "is_gen_asr (Gen_asr a) = True"
| "is_gen_asr _ = False"

subsection \<open>Engines and messages of the scenarios\<close>

text \<open>Two thousand opening brackets: \<open>json.loads\<close> raises RecursionError on it.\<close>

definition deep_text :: string where
  "deep_text = replicate 2000 (CHR ''['')"

text \<open>
  A decoder for the control messages of the scenarios; any other text is malformed
  (JSONDecodeError).
\<close>

definition test_loads :: "string \<Rightarrow> exn + json" where
  "test_loads t =
     (if t = deep_text then Inl RecursionError
      else if t = ''{\"is_speaking\": false}'' then Inr (JObj [(''is_speaking'', JBool False)])
      else if t = ''{\"mode\":\"2pass\",\"chunk_interval\":2}''
        then Inr (JObj [(''mode'', JStr ''2pass''), (''chunk_interval'', JInt 2)])
      else if t = ''{\"chunk_interval\": 0}'' then Inr (JObj [(''chunk_interval'', JInt 0)])
      else if t = ''{\"chunk_interval\": \"10\"}''
        then Inr (JObj [(''chunk_interval'', JStr ''10'')])
      else Inl JSONDecodeError)"

text \<open>Engines that recognise some text; the VAD never reports a boundary.\<close>

definition quiet_env :: env where
  "quiet_env = \<lparr>
     loads = test_loads,
     int_of_str = (\<lambda>x. None),
     model_asr = (\<lambda>a h. Inr ''hello''),
     model_asr_streaming = (\<lambda>a c f cs. (Inr ''hel'', c)),
     model_vad = (\<lambda>a c. (Inr [], c)),
     model_punc = None \<rparr>"

text \<open>The offline engine raises on every call.\<close>

definition failing_env :: env where
  "failing_env = quiet_env\<lparr>model_asr := (\<lambda>a h. Inl (EngineError ''offline''))\<rparr>"

text \<open>The VAD reports a speech end on every frame and fills its cache.\<close>

definition vad_end_env :: env where
  "vad_end_env = quiet_env\<lparr>model_vad := (\<lambda>a c. (Inr [(- 1, 3200)], [(''stats'', JInt 1)]))\<rparr>"

text \<open>The offline engine raises and the VAD reports a speech end.\<close>

definition failing_vad_end_env :: env where
  "failing_vad_end_env = failing_env\<lparr>model_vad := model_vad vad_end_env\<rparr>"

text \<open>The session after one audio frame on which the VAD reported no boundary.\<close>

definition one_frame_session :: session where
  "one_frame_session =
     init_session\<lparr>speech_start_i := Some (- 1), frames := [[1]], frames_asr := [[1]],
       frames_asr_online := [[1]]\<rparr>"

definition stop_text :: string where
  "stop_text = ''{\"is_speaking\": false}''"

definition config_text :: string where
  "config_text = ''{\"mode\":\"2pass\",\"chunk_interval\":2}''"

section \<open>Properties\<close>

subsection \<open>Helper facts\<close>

lemma ws_loop_skip:
  "step E s m = (Inr s, []) \<Longrightarrow> ws_loop E s (m # ms) = ws_loop E s ms"
  by (cases "ws_loop E s ms") simp


text \<open>
  The trigger check returns a truth value exactly for a nonzero int and for \<open>True\<close>;
  any other value of \<open>chunk_interval\<close> raises (ZeroDivisionError or TypeError).
\<close>

lemma online_trigger_total_iff:
  "(\<exists>b. online_trigger s = Inr b) \<longleftrightarrow>
     (\<exists>n. n \<noteq> 0 \<and> chunk_interval s = JInt n) \<or> chunk_interval s = JBool True"
  by (cases "chunk_interval s") (auto simp: online_trigger_def)


lemma offline_message_final:
  "offline_message s t = Inr (Send_result m t' w f) \<Longrightarrow>
     f = (if mode s = JStr ''offline'' then JBool True else is_speaking s)"
  by (auto simp: offline_message_def split: sum.splits)

lemma online_message_final:
  "online_message s t = Inr (Send_result m t' w f) \<Longrightarrow> f = is_speaking s"
  by (auto simp: online_message_def split: sum.splits)

lemma process_asr_offline_sends:
  assumes "Send_result m t w f \<in> set (snd (snd (process_asr_offline E s a)))"
  shows "\<exists>c t'. offline_message (s\<lparr>punc_cache := c\<rparr>) t' = Inr (Send_result m t w f)"
proof (cases "model_asr E a (status_dict_asr s)")
  case (Inl e)
  with assms show ?thesis
    by (simp add: process_asr_offline_def split: if_splits)
next
  case (Inr tx)
  show ?thesis
  proof (cases "model_punc E \<noteq> None \<and> length tx > 0")
    case True
    obtain r c where rc: "the (model_punc E) tx (punc_cache s) = (r, c)"
      by (cases "the (model_punc E) tx (punc_cache s)")
    with assms Inr True show ?thesis
      by (cases r) (auto simp: process_asr_offline_def split: if_splits sum.splits)
  next
    case False
    with assms Inr have "offline_message s tx = Inr (Send_result m t w f)"
      by (auto simp: process_asr_offline_def split: if_splits sum.splits)
    then have "offline_message (s\<lparr>punc_cache := punc_cache s\<rparr>) tx = Inr (Send_result m t w f)"
      by simp
    then show ?thesis by blast
  qed
qed

lemma process_asr_online_sends:
  assumes "Send_result m t w f \<in> set (snd (snd (process_asr_online E s a)))"
  shows "\<exists>c t'. online_message (s\<lparr>asr_online_cache := c\<rparr>) t' = Inr (Send_result m t w f)"
proof -
  obtain r c where rc: "model_asr_streaming E a (asr_online_cache s) (asr_online_is_final s)
                (asr_online_chunk_size s) = (r, c)"
    by (cases "model_asr_streaming E a (asr_online_cache s) (asr_online_is_final s)
                (asr_online_chunk_size s)")
  with assms show ?thesis
    by (cases r) (auto simp: process_asr_online_def split: if_splits sum.splits)
qed

text \<open>What each block of the handler changes in the session.\<close>

lemma process_asr_offline_state:
  "\<exists>c. fst (snd (process_asr_offline E s a)) = s\<lparr>punc_cache := c\<rparr>"
proof (cases "length a = 0")
  case True
  then show ?thesis
    by (intro exI[of _ "punc_cache s"]) (simp add: process_asr_offline_def)
next
  case nonempty: False
  show ?thesis
  proof (cases "model_asr E a (status_dict_asr s)")
    case (Inl e)
    with nonempty show ?thesis
      by (intro exI[of _ "punc_cache s"]) (simp add: process_asr_offline_def)
  next
    case (Inr tx)
    show ?thesis
    proof (cases "model_punc E \<noteq> None \<and> length tx > 0")
      case True
      obtain r c where rc: "the (model_punc E) tx (punc_cache s) = (r, c)"
        by (cases "the (model_punc E) tx (punc_cache s)")
      with Inr True nonempty show ?thesis
        by (intro exI[of _ c], cases r)
           (auto simp: process_asr_offline_def split: sum.splits)
    next
      case False
      with Inr nonempty show ?thesis
        by (intro exI[of _ "punc_cache s"])
           (auto simp: process_asr_offline_def split: sum.splits)
    qed
  qed
qed

lemma process_asr_online_state:
  "\<exists>c. fst (snd (process_asr_online E s a)) = s\<lparr>asr_online_cache := c\<rparr>"
proof -
  obtain r c where rc: "model_asr_streaming E a (asr_online_cache s) (asr_online_is_final s)
                (asr_online_chunk_size s) = (r, c)"
    by (cases "model_asr_streaming E a (asr_online_cache s) (asr_online_is_final s)
                (asr_online_chunk_size s)")
  show ?thesis
  proof (cases "length a = 0")
    case True
    then show ?thesis
      by (intro exI[of _ "asr_online_cache s"]) (simp add: process_asr_online_def)
  next
    case False
    with rc show ?thesis
      by (intro exI[of _ c], cases r) (auto simp: process_asr_online_def split: sum.splits)
  qed
qed

lemma vad_end_flush_state:
  "\<exists>c. fst (vad_end_flush E s) = vad_end_reset (s\<lparr>punc_cache := c\<rparr>)"
proof (cases "mode s = JStr ''2pass'' \<or> mode s = JStr ''offline''")
  case True
  obtain c where "fst (snd (process_asr_offline E s (concat (frames_asr s)))) = s\<lparr>punc_cache := c\<rparr>"
    using process_asr_offline_state by blast
  with True show ?thesis
    by (auto simp: vad_end_flush_def split: prod.splits)
next
  case False
  then show ?thesis
    by (intro exI[of _ "punc_cache s"]) (simp add: vad_end_flush_def)
qed

lemma client_stop_flush_state:
  assumes "\<not> truthy (is_speaking s)" and "frames_asr s \<noteq> []"
  shows "\<exists>c. fst (client_stop_flush E s) = client_stop_reset (s\<lparr>punc_cache := c\<rparr>)"
proof (cases "mode s = JStr ''2pass'' \<or> mode s = JStr ''offline''")
  case True
  obtain c where "fst (snd (process_asr_offline E s (concat (frames_asr s)))) = s\<lparr>punc_cache := c\<rparr>"
    using process_asr_offline_state by blast
  with True assms show ?thesis
    by (auto simp: client_stop_flush_def split: prod.splits)
next
  case False
  with assms show ?thesis
    by (intro exI[of _ "punc_cache s"]) (simp add: client_stop_flush_def)
qed

lemma online_block_state:
  "\<exists>c. fst (online_block E s) = s\<lparr>asr_online_cache := c, frames_asr_online := []\<rparr>"
proof (cases "mode s = JStr ''2pass'' \<or> mode s = JStr ''online''")
  case True
  obtain c where "fst (snd (process_asr_online E s (concat (frames_asr_online s))))
      = s\<lparr>asr_online_cache := c\<rparr>"
    using process_asr_online_state by blast
  with True show ?thesis
    by (auto simp: online_block_def split: prod.splits)
next
  case False
  then show ?thesis
    by (intro exI[of _ "asr_online_cache s"]) (simp add: online_block_def)
qed

lemma vad_block_state:
  "\<exists>c b e. fst (vad_block E s f) = s\<lparr>vad_cache := c, speech_start_i := b, speech_end_i := e\<rparr>"
proof -
  obtain r c where rc: "model_vad E f (vad_cache s) = (r, c)"
    by (cases "model_vad E f (vad_cache s)")
  show ?thesis
  proof (cases r)
    case (Inl e)
    with rc show ?thesis
      by (intro exI[of _ c] exI[of _ "speech_start_i s"] exI[of _ "speech_end_i s"])
         (simp add: vad_block_def process_vad_def)
  next
    case (Inr segs)
    with rc show ?thesis
      by (intro exI[of _ c] exI[of _ "Some (fst (vad_offsets segs))"]
            exI[of _ "snd (vad_offsets segs)"])
         (simp add: vad_block_def process_vad_def split: prod.splits)
  qed
qed

lemma on_binary_cases:
  assumes "on_binary E s f = (Inr s', ev)"
  obtains fire s2 ev2 s3 ev3 ev4 where
    "online_trigger (accumulate s f) = Inr fire"
    "(if fire then online_block E (accumulate s f) else (accumulate s f, [])) = (s2, ev2)"
    "vad_block E s2 f = (s3, ev3)"
    "after_vad E s3 = (Inr s', ev4)"
    "ev = ev2 @ ev3 @ ev4"
  using assms
  by (auto simp: on_binary_def Let_def split: sum.splits prod.splits)

lemma after_vad_state:
  assumes "after_vad E s = (Inr s', ev)"
  shows "if speech_end_i s \<noteq> - 1
         then \<exists>c. s' = vad_end_reset (s\<lparr>punc_cache := c\<rparr>)
         else \<exists>b. s' = s\<lparr>speech_start := b\<rparr>"
proof (cases "speech_start_i s")
  case None
  with assms show ?thesis by (simp add: after_vad_def)
next
  case (Some b)
  show ?thesis
  proof (cases "speech_end_i s \<noteq> - 1")
    case True
    let ?s2 = "s\<lparr>speech_start := False\<rparr>"
    obtain c where c: "fst (vad_end_flush E ?s2) = vad_end_reset (?s2\<lparr>punc_cache := c\<rparr>)"
      using vad_end_flush_state by blast
    from assms Some True have "s' = fst (vad_end_flush E ?s2)"
      by (cases "b = - 1") (auto simp: after_vad_def Let_def split: prod.splits)
    with c have "s' = vad_end_reset (s\<lparr>punc_cache := c\<rparr>)"
      by (simp add: vad_end_reset_def)
    with True show ?thesis by auto
  next
    case False
    with assms Some show ?thesis
      by (cases "b = - 1") (auto simp: after_vad_def Let_def intro: exI[of _ "speech_start s"])
  qed
qed

lemma process_asr_online_events:
  "filter is_call_online (snd (snd (process_asr_online E s a))) = [Call_online a] \<and>
   filter is_call_offline (snd (snd (process_asr_online E s a))) = [] \<and>
   filter is_gen_asr (snd (snd (process_asr_online E s a))) = []"
proof -
  obtain r c where rc: "model_asr_streaming E a (asr_online_cache s) (asr_online_is_final s)
                (asr_online_chunk_size s) = (r, c)"
    by (cases "model_asr_streaming E a (asr_online_cache s) (asr_online_is_final s)
                (asr_online_chunk_size s)")
  then show ?thesis
    by (cases r) (auto simp: process_asr_online_def online_message_def split: sum.splits)
qed

lemma online_block_events:
  "filter is_call_offline (snd (online_block E s)) = [] \<and>
   filter is_gen_asr (snd (online_block E s)) = [] \<and>
   filter is_call_online (snd (online_block E s)) =
     (if mode s = JStr ''2pass'' \<or> mode s = JStr ''online''
      then [Call_online (concat (frames_asr_online s))] else [])"
  using process_asr_online_events [of E s "concat (frames_asr_online s)"]
  by (auto simp: online_block_def split: prod.splits)

lemma vad_block_events: "snd (vad_block E s f) = [Gen_vad f]"
  by (auto simp: vad_block_def process_vad_def split: prod.splits sum.splits)

lemma process_asr_offline_events:
  "filter is_call_online (snd (snd (process_asr_offline E s a))) = []"
proof (cases "model_asr E a (status_dict_asr s)")
  case (Inl e)
  then show ?thesis by (simp add: process_asr_offline_def)
next
  case (Inr tx)
  obtain r c where rc: "the (model_punc E) tx (punc_cache s) = (r, c)"
    by (cases "the (model_punc E) tx (punc_cache s)")
  with Inr show ?thesis
    by (cases r) (auto simp: process_asr_offline_def offline_message_def split: sum.splits)
qed

lemma vad_end_flush_events:
  "filter is_call_online (snd (vad_end_flush E s)) = [] \<and>
   (mode s \<noteq> JStr ''2pass'' \<and> mode s \<noteq> JStr ''offline'' \<longrightarrow> snd (vad_end_flush E s) = [])"
  using process_asr_offline_events [of E s "concat (frames_asr s)"]
  by (auto simp: vad_end_flush_def split: prod.splits)

lemma after_vad_events:
  "filter is_call_online (snd (after_vad E s)) = [] \<and>
   (mode s \<noteq> JStr ''2pass'' \<and> mode s \<noteq> JStr ''offline'' \<or> speech_end_i s = - 1
      \<longrightarrow> snd (after_vad E s) = [])"
proof (cases "speech_start_i s")
  case None
  then show ?thesis by (simp add: after_vad_def)
next
  case (Some b)
  show ?thesis
  proof (cases "speech_end_i s \<noteq> - 1")
    case True
    with Some have "snd (after_vad E s) = snd (vad_end_flush E (s\<lparr>speech_start := False\<rparr>))"
      by (cases "b = - 1") (auto simp: after_vad_def Let_def split: prod.splits)
    then show ?thesis
      using vad_end_flush_events [of E "s\<lparr>speech_start := False\<rparr>"] True by simp
  next
    case False
    with Some show ?thesis
      by (cases "b = - 1") (auto simp: after_vad_def Let_def)
  qed
qed

lemma on_binary_state:
  assumes "on_binary E s f = (Inr s', ev)"
  shows "speech_end_i s' \<noteq> - 1 \<longrightarrow>
           frames_asr s' = [] \<and> frames_asr_online s' = [] \<and> asr_online_cache s' = [] \<and>
           \<not> speech_start s' \<and>
           frames s' = drop (length (frames s @ [f]) - 20) (frames s @ [f])"
    and "mode s' = mode s \<and> chunk_interval s' = chunk_interval s \<and>
         asr_online_is_final s' = (speech_end_i s \<noteq> - 1)"
proof -
  from assms obtain fire s2 ev2 s3 ev3 ev4 where
    d: "(if fire then online_block E (accumulate s f) else (accumulate s f, [])) = (s2, ev2)"
       "vad_block E s2 f = (s3, ev3)" "after_vad E s3 = (Inr s', ev4)"
    by (rule on_binary_cases)
  obtain c2 where s2: "s2 = accumulate s f \<or>
      s2 = (accumulate s f)\<lparr>asr_online_cache := c2, frames_asr_online := []\<rparr>"
    using d(1) online_block_state [of E "accumulate s f"]
    by (cases fire) auto
  obtain c3 b3 e3 where s3: "s3 = s2\<lparr>vad_cache := c3, speech_start_i := b3, speech_end_i := e3\<rparr>"
    using d(2) vad_block_state [of E s2 f] by auto
  from after_vad_state [OF d(3)]
  have s': "(speech_end_i s3 \<noteq> - 1 \<and> (\<exists>c. s' = vad_end_reset (s3\<lparr>punc_cache := c\<rparr>))) \<or>
            (speech_end_i s3 = - 1 \<and> (\<exists>b. s' = s3\<lparr>speech_start := b\<rparr>))"
    by (auto split: if_splits)
  from s2 s3 s' show "speech_end_i s' \<noteq> - 1 \<longrightarrow>
           frames_asr s' = [] \<and> frames_asr_online s' = [] \<and> asr_online_cache s' = [] \<and>
           \<not> speech_start s' \<and>
           frames s' = drop (length (frames s @ [f]) - 20) (frames s @ [f])"
    by (auto simp: vad_end_reset_def accumulate_def)
  from s2 s3 s' show "mode s' = mode s \<and> chunk_interval s' = chunk_interval s \<and>
         asr_online_is_final s' = (speech_end_i s \<noteq> - 1)"
    by (auto simp: vad_end_reset_def accumulate_def)
qed

lemma on_binary_decomp:
  assumes "online_trigger (accumulate s f) = Inr fire"
  obtains s2 ev2 s3 ev3 r ev4 where
    "(if fire then online_block E (accumulate s f) else (accumulate s f, [])) = (s2, ev2)"
    "vad_block E s2 f = (s3, ev3)"
    "after_vad E s3 = (r, ev4)"
    "on_binary E s f = (r, ev2 @ ev3 @ ev4)"
proof -
  obtain s2 ev2 where
    a: "(if fire then online_block E (accumulate s f) else (accumulate s f, [])) = (s2, ev2)"
    by (cases "if fire then online_block E (accumulate s f) else (accumulate s f, [])")
  obtain s3 ev3 where b: "vad_block E s2 f = (s3, ev3)"
    by (cases "vad_block E s2 f")
  obtain r ev4 where c: "after_vad E s3 = (r, ev4)"
    by (cases "after_vad E s3")
  have "on_binary E s f = (r, ev2 @ ev3 @ ev4)"
    using assms a b c by (simp add: on_binary_def Let_def)
  with a b c show thesis by (rule that)
qed

lemma on_binary_mid:
  assumes "(if fire then online_block E (accumulate s f) else (accumulate s f, [])) = (s2, ev2)"
    and "vad_block E s2 f = (s3, ev3)"
  shows "mode s3 = mode s" and "frames_asr s3 = frames_asr s @ [f]"
    and "ev3 = [Gen_vad f]"
    and "filter is_call_offline ev2 = []" and "filter is_gen_asr ev2 = []"
    and "filter is_call_online ev2 =
      (if fire \<and> (mode s = JStr ''2pass'' \<or> mode s = JStr ''online'')
       then [Call_online (concat (frames_asr_online s @ [f]))] else [])"
proof -
  obtain c2 where s2: "s2 = accumulate s f \<or>
      s2 = (accumulate s f)\<lparr>asr_online_cache := c2, frames_asr_online := []\<rparr>"
    using assms(1) online_block_state [of E "accumulate s f"]
    by (cases fire) auto
  obtain c3 b3 e3 where s3: "s3 = s2\<lparr>vad_cache := c3, speech_start_i := b3, speech_end_i := e3\<rparr>"
    using assms(2) vad_block_state [of E s2 f] by auto
  from s2 s3 show "mode s3 = mode s" and "frames_asr s3 = frames_asr s @ [f]"
    by (auto simp: accumulate_def)
  from assms(2) show "ev3 = [Gen_vad f]"
    using vad_block_events [of E s2 f] by simp
  have acc: "mode (accumulate s f) = mode s"
    "frames_asr_online (accumulate s f) = frames_asr_online s @ [f]"
    by (simp_all add: accumulate_def)
  from assms(1) show "filter is_call_offline ev2 = []" and "filter is_gen_asr ev2 = []"
    and "filter is_call_online ev2 =
      (if fire \<and> (mode s = JStr ''2pass'' \<or> mode s = JStr ''online'')
       then [Call_online (concat (frames_asr_online s @ [f]))] else [])"
    using online_block_events [of E "accumulate s f"] acc
    by (cases fire; auto)+
qed


lemma on_binary_no_offline:
  assumes "mode s \<noteq> JStr ''2pass'' \<and> mode s \<noteq> JStr ''offline''"
  shows "filter is_call_offline (snd (on_binary E s f)) = []"
proof (cases "online_trigger (accumulate s f)")
  case (Inl e)
  then show ?thesis by (simp add: on_binary_def)
next
  case (Inr fire)
  then obtain s2 ev2 s3 ev3 r ev4 where
    d: "(if fire then online_block E (accumulate s f) else (accumulate s f, [])) = (s2, ev2)"
       "vad_block E s2 f = (s3, ev3)" "after_vad E s3 = (r, ev4)"
       "on_binary E s f = (r, ev2 @ ev3 @ ev4)"
    by (rule on_binary_decomp)
  have "ev4 = []"
    using after_vad_events [of E s3] d(3) on_binary_mid(1) [OF d(1,2)] assms by simp
  with on_binary_mid(3,4) [OF d(1,2)] d(4) show ?thesis by simp
qed

lemmas handler_defs =
  on_text_def on_is_speaking_def client_stop_flush_def client_stop_reset_def on_settings_def
  on_binary_def accumulate_def online_trigger_def online_block_def vad_block_def
  process_vad_def vad_offsets_def after_vad_def vad_end_flush_def vad_end_reset_def
  process_asr_offline_def offline_message_def process_asr_online_def online_message_def
  ws_serve_def Let_def

lemma text_not_deep: "length t \<noteq> 2000 \<Longrightarrow> (t = deep_text) = False"
  by (auto simp: deep_text_def)

lemmas scenario_defs =
  text_not_deep test_loads_def quiet_env_def failing_env_def vad_end_env_def failing_vad_end_env_def
  init_session_def one_frame_session_def stop_text_def config_text_def

lemma on_settings_state:
  assumes "on_settings E mj s = Inr s'"
  shows "frames s' = frames s" and "frames_asr s' = frames_asr s"
    and "frames_asr_online s' = frames_asr_online s"
    and "asr_online_is_final s' = asr_online_is_final s"
  using assms
  by (auto simp: on_settings_def Let_def split: option.splits sum.splits)

lemma on_text_cases:
  assumes "loads E t = Inr (JObj mj)" and "map_of mj ''type'' \<noteq> Some (JStr ''ping'')"
    and "step E s (Text t) = (r, ev)"
  obtains s1 where "on_is_speaking E mj s = (s1, ev)" and "on_settings E mj s1 = r"
  using assms by (auto simp: on_text_def split: prod.splits)

lemma after_vad_failed:
  assumes "speech_start_i s = Some b" and "speech_end_i s \<noteq> - 1"
    and "mode s = JStr ''2pass'' \<or> mode s = JStr ''offline''"
    and "model_asr E (concat (frames_asr s)) (status_dict_asr s) = Inl e"
    and "concat (frames_asr s) \<noteq> []"
  shows "after_vad E s =
    (Inr (vad_end_reset s), [Call_offline (concat (frames_asr s)), Gen_asr (concat (frames_asr s))])"
  using assms
  by (cases "b = - 1")
     (auto simp: after_vad_def Let_def vad_end_flush_def process_asr_offline_def
        vad_end_reset_def)






text \<open>Control messages while the offline queue is empty.\<close>

lemma on_is_speaking_no_audio:
  assumes "frames_asr s = []"
  shows "snd (on_is_speaking E mj s) = [] \<and> frames_asr (fst (on_is_speaking E mj s)) = []"
  using assms
  by (auto simp: on_is_speaking_def client_stop_flush_def split: option.splits)

lemma on_text_no_audio:
  assumes "frames_asr s = []"
  shows "filter is_call_offline (snd (on_text E s t)) = [] \<and>
         filter is_gen_asr (snd (on_text E s t)) = [] \<and>
         (\<forall>s'. fst (on_text E s t) = Inr s' \<longrightarrow> frames_asr s' = [])"
proof (cases "loads E t")
  case (Inl e)
  with assms show ?thesis by (simp add: on_text_def)
next
  case (Inr j)
  show ?thesis
  proof (cases "\<exists>mj. j = JObj mj")
    case False
    with Inr show ?thesis by (cases j) (simp_all add: on_text_def)
  next
    case True
    then obtain mj where j: "j = JObj mj" by blast
    show ?thesis
    proof (cases "map_of mj ''type'' = Some (JStr ''ping'')")
      case True
      with Inr j assms show ?thesis by (simp add: on_text_def)
    next
      case False
      obtain s1 ev where p: "on_is_speaking E mj s = (s1, ev)"
        by (cases "on_is_speaking E mj s")
      with on_is_speaking_no_audio [OF assms, of E mj]
      have e: "ev = []" "frames_asr s1 = []" by simp_all
      from Inr j False p have r: "on_text E s t = (on_settings E mj s1, ev)"
        by (simp add: on_text_def)
      with e on_settings_state(2) show ?thesis by auto
    qed
  qed
qed

lemma texts_no_audio:
  "frames_asr s = [] \<Longrightarrow>
     filter is_call_offline (snd (ws_loop E s (map Text ts))) = [] \<and>
     filter is_gen_asr (snd (ws_loop E s (map Text ts))) = []"
proof (induction ts arbitrary: s)
  case Nil
  then show ?case by simp
next
  case (Cons t ts)
  obtain r ev where p: "on_text E s t = (r, ev)"
    by (cases "on_text E s t")
  with on_text_no_audio [OF Cons.prems, of E t]
  have e: "filter is_call_offline ev = []" "filter is_gen_asr ev = []"
    "\<forall>s'. r = Inr s' \<longrightarrow> frames_asr s' = []"
    by simp_all
  show ?case
  proof (cases r)
    case (Inl x)
    with p e show ?thesis by simp
  next
    case (Inr s1)
    with e have "frames_asr s1 = []" by simp
    from Cons.IH [OF this] p Inr e show ?thesis
      by (auto split: prod.splits)
  qed
qed

lemma text_trigger_empties:
  assumes "loads E t = Inr (JObj mj)" and "map_of mj ''type'' \<noteq> Some (JStr ''ping'')"
    and "map_of mj ''is_speaking'' = Some v" and "\<not> truthy v"
    and "step E s (Text t) = (Inr s1, ev)"
  shows "frames_asr s1 = []"
proof -
  from assms(1,2,5) obtain s0 where
    s0: "on_is_speaking E mj s = (s0, ev)" "on_settings E mj s0 = Inr s1"
    using on_text_cases by blast
  let ?u = "s\<lparr>is_speaking := v, asr_online_is_final := \<not> truthy v\<rparr>"
  have "frames_asr (fst (client_stop_flush E ?u)) = []"
  proof (cases "frames_asr s = []")
    case True
    then show ?thesis by (simp add: client_stop_flush_def)
  next
    case False
    with assms(4) obtain c where
      "fst (client_stop_flush E ?u) = client_stop_reset (?u\<lparr>punc_cache := c\<rparr>)"
      using client_stop_flush_state [of ?u E] by auto
    then show ?thesis by (simp add: client_stop_reset_def)
  qed
  with assms(3) s0(1) have "frames_asr s0 = []"
    by (auto simp: on_is_speaking_def)
  with on_settings_state(2) [OF s0(2)] show ?thesis by simp
qed

subsection \<open>Result messages\<close>

text \<open>
  C3. A result message sent by the offline pass has \<open>is_final = true\<close> when the mode
  is "offline", and the session's \<open>is_speaking\<close> when the mode is "2pass"; a result
  message sent by the online pass has \<open>is_final\<close> equal to the session's
  \<open>is_speaking\<close>.
\<close>

theorem result_is_final:
  "(Send_result m t w f \<in> set (snd (snd (process_asr_offline E s a)))
      \<longrightarrow> (mode s = JStr ''offline'' \<longrightarrow> f = JBool True) \<and>
          (mode s = JStr ''2pass'' \<longrightarrow> f = is_speaking s)) \<and>
   (Send_result m t w f \<in> set (snd (snd (process_asr_online E s a)))
      \<longrightarrow> f = is_speaking s)"
proof (intro conjI impI)
  assume "Send_result m t w f \<in> set (snd (snd (process_asr_offline E s a)))"
  then obtain c t' where
    "offline_message (s\<lparr>punc_cache := c\<rparr>) t' = Inr (Send_result m t w f)"
    using process_asr_offline_sends by blast
  then have f: "f = (if mode s = JStr ''offline'' then JBool True else is_speaking s)"
    using offline_message_final by fastforce
  { assume "mode s = JStr ''offline''" with f show "f = JBool True" by simp }
  { assume "mode s = JStr ''2pass''" with f show "f = is_speaking s" by simp }
next
  assume "Send_result m t w f \<in> set (snd (snd (process_asr_online E s a)))"
  then obtain c t' where
    "online_message (s\<lparr>asr_online_cache := c\<rparr>) t' = Inr (Send_result m t w f)"
    using process_asr_online_sends by blast
  then show "f = is_speaking s"
    using online_message_final by fastforce
qed

theorem result_is_final_witness:
  "Send_result (JStr ''offline'') ''hello'' (JStr ''microphone'') (JBool True)
     \<in> set (snd (snd (process_asr_offline quiet_env
          (init_session\<lparr>mode := JStr ''offline'', is_speaking := JBool False\<rparr>) [1]))) \<and>
   Send_result (JStr ''2pass-offline'') ''hello'' (JStr ''microphone'') (JBool False)
     \<in> set (snd (snd (process_asr_offline quiet_env
          (init_session\<lparr>is_speaking := JBool False\<rparr>) [1]))) \<and>
   Send_result (JStr ''2pass-online'') ''hel'' (JStr ''microphone'') (JBool False)
     \<in> set (snd (snd (process_asr_online quiet_env
          (init_session\<lparr>is_speaking := JBool False\<rparr>) [1])))"
proof -
  have a: "Send_result (JStr ''offline'') ''hello'' (JStr ''microphone'') (JBool True)
     \<in> set (snd (snd (process_asr_offline quiet_env
          (init_session\<lparr>mode := JStr ''offline'', is_speaking := JBool False\<rparr>) [1])))"
    by (simp add: process_asr_offline_def offline_message_def quiet_env_def init_session_def)
  have b: "Send_result (JStr ''2pass-offline'') ''hello'' (JStr ''microphone'') (JBool False)
     \<in> set (snd (snd (process_asr_offline quiet_env
          (init_session\<lparr>is_speaking := JBool False\<rparr>) [1])))"
    by (simp add: process_asr_offline_def offline_message_def quiet_env_def init_session_def)
  have c: "Send_result (JStr ''2pass-online'') ''hel'' (JStr ''microphone'') (JBool False)
     \<in> set (snd (snd (process_asr_online quiet_env
          (init_session\<lparr>is_speaking := JBool False\<rparr>) [1])))"
    by (simp add: process_asr_online_def online_message_def quiet_env_def init_session_def)
  note result_is_final [of "JStr ''offline''" "''hello''" "JStr ''microphone''" "JBool True"
      quiet_env "init_session\<lparr>mode := JStr ''offline'', is_speaking := JBool False\<rparr>" "[1]"]
  with a b c show ?thesis by blast
qed

subsection \<open>Malformed control messages\<close>

text \<open>
  C8, as the code has it. A text message on which \<open>json.loads\<close> raises JSONDecodeError
  is dropped: nothing is sent, the session state is unchanged, and the messages after it
  are processed as if it had not been received.
\<close>

theorem malformed_json_dropped:
  "loads E t = Inl JSONDecodeError \<Longrightarrow>
     step E s (Text t) = (Inr s, []) \<and> ws_loop E s (Text t # ms) = ws_loop E s ms"
  by (simp add: on_text_def ws_loop_skip)

theorem malformed_json_dropped_witness:
  "loads quiet_env ''{not json'' = Inl JSONDecodeError \<and>
   step quiet_env init_session (Text ''{not json'') = (Inr init_session, []) \<and>
   ws_loop quiet_env init_session [Text ''{not json'', Binary [1]]
     = ws_loop quiet_env init_session [Binary [1]]"
proof -
  have hyp: "loads quiet_env ''{not json'' = Inl JSONDecodeError"
    by (simp add: scenario_defs)
  from malformed_json_dropped [OF hyp, of init_session "[Binary [1]]"] hyp
  show ?thesis by blast
qed

text \<open>
  C8, as stated, fails: a text of two thousand opening brackets is not parseable JSON,
  but \<open>json.loads\<close> raises RecursionError on it, which line 255 does not catch; the
  exception ends the receive loop and the audio frame after it is not processed.
\<close>

theorem unparseable_text_ends_session_counterexample:
  "loads quiet_env deep_text = Inl RecursionError \<and>
   step quiet_env init_session (Text deep_text) = (Inl RecursionError, []) \<and>
   ws_loop quiet_env init_session [Text deep_text, Binary [1]] = (Inl RecursionError, []) \<and>
   ws_loop quiet_env init_session [Binary [1]] = (Inr one_frame_session, [Gen_vad [1]])"
  by (simp add: handler_defs test_loads_def quiet_env_def init_session_def
        one_frame_session_def)

subsection \<open>The chunk interval\<close>




subsection \<open>A failed offline flush\<close>

text \<open>
  C1, as the code has it. When the offline engine raises during a flush, the exception is
  caught: the step returns a session (the receive loop goes on) and nothing is sent after
  the engine call. The two queues are nevertheless emptied, as after a successful flush:
  on the client-stop path (a control message with a false \<open>is_speaking\<close>) and on the
  VAD path (an audio frame on which the VAD reports a speech end).
\<close>

theorem failed_flush_resets:
  "(model_asr E (concat (frames_asr s)) (status_dict_asr s) = Inl e \<and>
    concat (frames_asr s) \<noteq> [] \<and> (mode s = JStr ''2pass'' \<or> mode s = JStr ''offline'') \<and>
    loads E t = Inr (JObj [(''is_speaking'', v)]) \<and> \<not> truthy v
      \<longrightarrow> (\<exists>s'. step E s (Text t) =
                 (Inr s', [Call_offline (concat (frames_asr s)),
                           Gen_asr (concat (frames_asr s))]) \<and>
               frames_asr s' = [] \<and> frames_asr_online s' = [])) \<and>
   (model_asr E (concat (frames_asr s @ [f])) (status_dict_asr s) = Inl e \<and>
    concat (frames_asr s @ [f]) \<noteq> [] \<and> (mode s = JStr ''2pass'' \<or> mode s = JStr ''offline'') \<and>
    chunk_interval s = JInt n \<and> n \<noteq> 0 \<and>
    model_vad E f (vad_cache s) = (Inr segs, c) \<and> snd (vad_offsets segs) \<noteq> - 1
      \<longrightarrow> (\<exists>s' ev2. step E s (Binary f) =
                 (Inr s', ev2 @ [Gen_vad f, Call_offline (concat (frames_asr s @ [f])),
                                 Gen_asr (concat (frames_asr s @ [f]))]) \<and>
               filter is_call_offline ev2 = [] \<and>
               frames_asr s' = [] \<and> frames_asr_online s' = []))"
  (is "(?stop \<longrightarrow> ?stopped) \<and> (?vad \<longrightarrow> ?ended)")
proof (intro conjI)
  show "?stop \<longrightarrow> ?stopped"
  proof
    assume a: ?stop
    let ?s0 = "s\<lparr>is_speaking := v, asr_online_is_final := True\<rparr>"
    from a have "concat (frames_asr s) \<noteq> []" by simp
    then have ne: "frames_asr s \<noteq> []" by auto
    from a ne have "step E s (Text t) =
        (Inr (client_stop_reset ?s0),
         [Call_offline (concat (frames_asr s)), Gen_asr (concat (frames_asr s))])"
      by (auto simp: on_text_def on_is_speaking_def on_settings_def client_stop_flush_def
            process_asr_offline_def)
    moreover have "frames_asr (client_stop_reset ?s0) = []"
      "frames_asr_online (client_stop_reset ?s0) = []"
      by (simp_all add: client_stop_reset_def)
    ultimately show ?stopped by blast
  qed
  show "?vad \<longrightarrow> ?ended"
  proof
    assume a: ?vad
    then have "online_trigger (accumulate s f) =
        Inr ((int (length (frames_asr_online s)) + 1) mod n = 0 \<or> speech_end_i s \<noteq> - 1)"
      by (simp add: online_trigger_def accumulate_def add.commute)
    then obtain s2 ev2 s3 ev3 r ev4 where
      d: "(if ((int (length (frames_asr_online s)) + 1) mod n = 0 \<or> speech_end_i s \<noteq> - 1)
          then online_block E (accumulate s f) else (accumulate s f, [])) = (s2, ev2)"
         "vad_block E s2 f = (s3, ev3)" "after_vad E s3 = (r, ev4)"
         "on_binary E s f = (r, ev2 @ ev3 @ ev4)"
      by (rule on_binary_decomp)
    obtain c2 where s2: "s2 = accumulate s f \<or>
        s2 = (accumulate s f)\<lparr>asr_online_cache := c2, frames_asr_online := []\<rparr>"
      using d(1) online_block_state [of E "accumulate s f"]
      by (cases "(int (length (frames_asr_online s)) + 1) mod n = 0 \<or> speech_end_i s \<noteq> - 1")
         auto
    then have "vad_cache s2 = vad_cache s" by (auto simp: accumulate_def)
    with a d(2) have s3: "s3 = s2\<lparr>vad_cache := c,
        speech_start_i := Some (fst (vad_offsets segs)), speech_end_i := snd (vad_offsets segs)\<rparr>"
      by (auto simp: vad_block_def process_vad_def split: prod.splits)
    with s2 have f3: "speech_start_i s3 = Some (fst (vad_offsets segs))"
      "speech_end_i s3 = snd (vad_offsets segs)" "status_dict_asr s3 = status_dict_asr s"
      by (auto simp: accumulate_def)
    note m = on_binary_mid [OF d(1,2)]
    have "after_vad E s3 = (Inr (vad_end_reset s3),
        [Call_offline (concat (frames_asr s3)), Gen_asr (concat (frames_asr s3))])"
      using a f3 m(1,2) by (intro after_vad_failed [of s3 "fst (vad_offsets segs)" E e]) auto
    with d(3,4) m(2,3) have "step E s (Binary f) =
        (Inr (vad_end_reset s3), ev2 @ [Gen_vad f, Call_offline (concat (frames_asr s @ [f])),
                                 Gen_asr (concat (frames_asr s @ [f]))])"
      by simp
    moreover have "frames_asr (vad_end_reset s3) = []" "frames_asr_online (vad_end_reset s3) = []"
      by (simp_all add: vad_end_reset_def)
    ultimately show ?ended using m(4) by blast
  qed
qed

theorem failed_flush_resets_witness:
  "model_asr failing_env (concat (frames_asr one_frame_session))
     (status_dict_asr one_frame_session) = Inl (EngineError ''offline'') \<and>
   concat (frames_asr one_frame_session) \<noteq> [] \<and> mode one_frame_session = JStr ''2pass'' \<and>
   loads failing_env stop_text = Inr (JObj [(''is_speaking'', JBool False)]) \<and>
   step failing_env one_frame_session (Text stop_text) =
     (Inr (init_session\<lparr>is_speaking := JBool False, asr_online_is_final := True,
             speech_start_i := Some (- 1)\<rparr>),
      [Call_offline [1], Gen_asr [1]]) \<and>
   model_vad failing_vad_end_env [2] (vad_cache one_frame_session)
     = (Inr [(- 1, 3200)], [(''stats'', JInt 1)]) \<and>
   snd (vad_offsets [(- 1, 3200)]) \<noteq> - 1 \<and>
   step failing_vad_end_env one_frame_session (Binary [2]) =
     (Inr (init_session\<lparr>vad_cache := [(''stats'', JInt 1)], speech_start_i := Some (- 1),
             speech_end_i := 3200, frames := [[1], [2]]\<rparr>),
      [Gen_vad [2], Call_offline [1, 2], Gen_asr [1, 2]])"
proof -
  have hyp: "model_asr failing_env (concat (frames_asr one_frame_session))
     (status_dict_asr one_frame_session) = Inl (EngineError ''offline'')"
    "concat (frames_asr one_frame_session) \<noteq> []" "mode one_frame_session = JStr ''2pass''"
    "loads failing_env stop_text = Inr (JObj [(''is_speaking'', JBool False)])"
    "\<not> truthy (JBool False)"
    "model_vad failing_vad_end_env [2] (vad_cache one_frame_session)
     = (Inr [(- 1, 3200)], [(''stats'', JInt 1)])"
    "snd (vad_offsets [(- 1, 3200)]) \<noteq> - 1"
    by (simp_all add: scenario_defs failing_vad_end_env_def vad_offsets_def)
  have run: "step failing_env one_frame_session (Text stop_text) =
     (Inr (init_session\<lparr>is_speaking := JBool False, asr_online_is_final := True,
             speech_start_i := Some (- 1)\<rparr>),
      [Call_offline [1], Gen_asr [1]])"
    "step failing_vad_end_env one_frame_session (Binary [2]) =
     (Inr (init_session\<lparr>vad_cache := [(''stats'', JInt 1)], speech_start_i := Some (- 1),
             speech_end_i := 3200, frames := [[1], [2]]\<rparr>),
      [Gen_vad [2], Call_offline [1, 2], Gen_asr [1, 2]])"
    by (simp_all add: handler_defs scenario_defs failing_vad_end_env_def)
  from failed_flush_resets [of failing_env one_frame_session "EngineError ''offline''"
      stop_text "JBool False" "[2]" 10 "[(- 1, 3200)]" "[(''stats'', JInt 1)]"] hyp run
  show ?thesis by blast
qed

text \<open>
  C1, as stated, fails: after one audio frame both queues hold the frame; the flush on
  the client's stop calls the offline engine, which raises, and both queues are empty
  afterwards.
\<close>

theorem failed_flush_keeps_queues_counterexample:
  "model_asr failing_env [1] None = Inl (EngineError ''offline'') \<and>
   map_sum id frames_asr (fst (ws_serve failing_env [Binary [1]])) = Inr [[1]] \<and>
   map_sum id frames_asr_online (fst (ws_serve failing_env [Binary [1]])) = Inr [[1]] \<and>
   ws_serve failing_env [Binary [1], Text stop_text] =
     (Inr (init_session\<lparr>is_speaking := JBool False, asr_online_is_final := True,
             speech_start_i := Some (- 1)\<rparr>),
      [Gen_vad [1], Call_offline [1], Gen_asr [1]]) \<and>
   map_sum id frames_asr (fst (ws_serve failing_env [Binary [1], Text stop_text])) = Inr [] \<and>
   map_sum id frames_asr_online (fst (ws_serve failing_env [Binary [1], Text stop_text]))
     = Inr []"
  by (simp add: handler_defs scenario_defs)

subsection \<open>The final flag of the online cache\<close>




subsection \<open>The queues after a flush\<close>

text \<open>
  C5. After a step that flushed, on a control message with a false \<open>is_speaking\<close>
  while the offline queue was not empty, or on an audio frame for which \<open>speech_end_i\<close>
  is not -1, the offline and online queues are empty and at most 20 frames are retained.
\<close>

theorem queues_empty_after_flush:
  "(loads E t = Inr (JObj mj) \<and> map_of mj ''type'' \<noteq> Some (JStr ''ping'') \<and>
    map_of mj ''is_speaking'' = Some v \<and> \<not> truthy v \<and> frames_asr s \<noteq> [] \<and>
    step E s (Text t) = (Inr s', ev)
      \<longrightarrow> frames_asr s' = [] \<and> frames_asr_online s' = [] \<and> length (frames s') \<le> 20) \<and>
   (step E s (Binary f) = (Inr s', ev) \<and> speech_end_i s' \<noteq> - 1
      \<longrightarrow> frames_asr s' = [] \<and> frames_asr_online s' = [] \<and> length (frames s') \<le> 20)"
  (is "(?stop \<longrightarrow> ?empty) \<and> (?vad \<longrightarrow> ?empty)")
proof (intro conjI)
  show "?stop \<longrightarrow> ?empty"
  proof
    assume a: ?stop
    then obtain s1 where s1: "on_is_speaking E mj s = (s1, ev)" "on_settings E mj s1 = Inr s'"
      using on_text_cases by blast
    let ?s0 = "s\<lparr>is_speaking := v, asr_online_is_final := \<not> truthy v\<rparr>"
    from a obtain c where
      "fst (client_stop_flush E ?s0) = client_stop_reset (?s0\<lparr>punc_cache := c\<rparr>)"
      using client_stop_flush_state [of ?s0 E] by auto
    with a s1(1) have "s1 = client_stop_reset (?s0\<lparr>punc_cache := c\<rparr>)"
      by (auto simp: on_is_speaking_def)
    then have "frames_asr s1 = [] \<and> frames_asr_online s1 = [] \<and> frames s1 = []"
      by (simp add: client_stop_reset_def)
    with on_settings_state [OF s1(2)] show ?empty by simp
  qed
  show "?vad \<longrightarrow> ?empty"
  proof
    assume a: ?vad
    then have "on_binary E s f = (Inr s', ev)" by simp
    from on_binary_state(1) [OF this] a show ?empty by simp
  qed
qed

theorem queues_empty_after_flush_witness:
  "loads quiet_env stop_text = Inr (JObj [(''is_speaking'', JBool False)]) \<and>
   \<not> truthy (JBool False) \<and> frames_asr one_frame_session \<noteq> [] \<and>
   step quiet_env one_frame_session (Text stop_text) =
     (Inr (init_session\<lparr>is_speaking := JBool False, asr_online_is_final := True,
             speech_start_i := Some (- 1)\<rparr>),
      [Call_offline [1], Gen_asr [1],
       Send_result (JStr ''2pass-offline'') ''hello'' (JStr ''microphone'') (JBool False)]) \<and>
   frames_asr (init_session\<lparr>is_speaking := JBool False, asr_online_is_final := True,
             speech_start_i := Some (- 1)\<rparr>) = [] \<and>
   step vad_end_env one_frame_session (Binary [2]) =
     (Inr (init_session\<lparr>vad_cache := [(''stats'', JInt 1)], speech_start_i := Some (- 1),
             speech_end_i := 3200, frames := [[1], [2]]\<rparr>),
      [Gen_vad [2], Call_offline [1, 2], Gen_asr [1, 2],
       Send_result (JStr ''2pass-offline'') ''hello'' (JStr ''microphone'') (JBool True)]) \<and>
   speech_end_i (init_session\<lparr>vad_cache := [(''stats'', JInt 1)],
     speech_start_i := Some (- 1), speech_end_i := 3200, frames := [[1], [2]]\<rparr>) \<noteq> - 1 \<and>
   length (frames (init_session\<lparr>vad_cache := [(''stats'', JInt 1)],
     speech_start_i := Some (- 1), speech_end_i := 3200, frames := [[1], [2]]\<rparr>)) \<le> 20"
proof -
  have hyp: "loads quiet_env stop_text = Inr (JObj [(''is_speaking'', JBool False)])"
    "map_of [(''is_speaking'', JBool False)] ''type'' \<noteq> Some (JStr ''ping'')"
    "map_of [(''is_speaking'', JBool False)] ''is_speaking'' = Some (JBool False)"
    "\<not> truthy (JBool False)" "frames_asr one_frame_session \<noteq> []"
    "speech_end_i (init_session\<lparr>vad_cache := [(''stats'', JInt 1)],
       speech_start_i := Some (- 1), speech_end_i := 3200, frames := [[1], [2]]\<rparr>) \<noteq> - 1"
    by (simp_all add: scenario_defs)
  have run: "step quiet_env one_frame_session (Text stop_text) =
     (Inr (init_session\<lparr>is_speaking := JBool False, asr_online_is_final := True,
             speech_start_i := Some (- 1)\<rparr>),
      [Call_offline [1], Gen_asr [1],
       Send_result (JStr ''2pass-offline'') ''hello'' (JStr ''microphone'') (JBool False)])"
    "step vad_end_env one_frame_session (Binary [2]) =
     (Inr (init_session\<lparr>vad_cache := [(''stats'', JInt 1)], speech_start_i := Some (- 1),
             speech_end_i := 3200, frames := [[1], [2]]\<rparr>),
      [Gen_vad [2], Call_offline [1, 2], Gen_asr [1, 2],
       Send_result (JStr ''2pass-offline'') ''hello'' (JStr ''microphone'') (JBool True)])"
    by (simp_all add: handler_defs scenario_defs)
  from queues_empty_after_flush [of quiet_env stop_text "[(''is_speaking'', JBool False)]"
      "JBool False" one_frame_session
      "init_session\<lparr>is_speaking := JBool False, asr_online_is_final := True,
             speech_start_i := Some (- 1)\<rparr>"
      "[Call_offline [1], Gen_asr [1],
       Send_result (JStr ''2pass-offline'') ''hello'' (JStr ''microphone'') (JBool False)]"]
    queues_empty_after_flush [of vad_end_env "[]" "[]" JNull one_frame_session
      "init_session\<lparr>vad_cache := [(''stats'', JInt 1)], speech_start_i := Some (- 1),
             speech_end_i := 3200, frames := [[1], [2]]\<rparr>"
      "[Gen_vad [2], Call_offline [1, 2], Gen_asr [1, 2],
       Send_result (JStr ''2pass-offline'') ''hello'' (JStr ''microphone'') (JBool True)]" "[2]"]
    hyp run
  show ?thesis by blast
qed

subsection \<open>What the two flush paths reset\<close>

text \<open>
  C6, as the code has it. Both flush paths empty the offline and online queues, reset the
  online cache and set \<open>speech_start\<close> to false. Only the client-stop path also empties
  the VAD cache and the retained frames and resets \<open>vad_pre_idx\<close>; the VAD path keeps
  the VAD cache and \<open>vad_pre_idx\<close> and keeps the last 20 retained frames.
\<close>

theorem flush_paths_reset:
  "(\<not> truthy (is_speaking s) \<and> frames_asr s \<noteq> [] \<and> client_stop_flush E s = (s', ev)
      \<longrightarrow> frames_asr s' = [] \<and> frames_asr_online s' = [] \<and> asr_online_cache s' = [] \<and>
          \<not> speech_start s' \<and> vad_cache s' = [] \<and> frames s' = [] \<and> vad_pre_idx s' = 0) \<and>
   (vad_end_flush E s = (s', ev)
      \<longrightarrow> frames_asr s' = [] \<and> frames_asr_online s' = [] \<and> asr_online_cache s' = [] \<and>
          \<not> speech_start s' \<and> vad_cache s' = vad_cache s \<and>
          frames s' = drop (length (frames s) - 20) (frames s) \<and>
          vad_pre_idx s' = vad_pre_idx s)"
  (is "(?stop \<longrightarrow> ?cleared) \<and> (?vad \<longrightarrow> ?kept)")
proof (intro conjI)
  show "?stop \<longrightarrow> ?cleared"
  proof
    assume ?stop
    then obtain c where "s' = client_stop_reset (s\<lparr>punc_cache := c\<rparr>)"
      using client_stop_flush_state [of s E] by auto
    then show ?cleared by (simp add: client_stop_reset_def)
  qed
  show "?vad \<longrightarrow> ?kept"
  proof
    assume ?vad
    then obtain c where "s' = vad_end_reset (s\<lparr>punc_cache := c\<rparr>)"
      using vad_end_flush_state [of E s] by auto
    then show ?kept by (simp add: vad_end_reset_def)
  qed
qed

theorem flush_paths_reset_witness:
  "vad_end_flush vad_end_env one_frame_session =
     (init_session\<lparr>speech_start_i := Some (- 1), frames := [[1]]\<rparr>,
      [Call_offline [1], Gen_asr [1],
       Send_result (JStr ''2pass-offline'') ''hello'' (JStr ''microphone'') (JBool True)]) \<and>
   frames (init_session\<lparr>speech_start_i := Some (- 1), frames := [[1]]\<rparr>) =
     drop (length (frames one_frame_session) - 20) (frames one_frame_session) \<and>
   frames_asr (init_session\<lparr>speech_start_i := Some (- 1), frames := [[1]]\<rparr>) = [] \<and>
   \<not> truthy (is_speaking (one_frame_session\<lparr>is_speaking := JBool False\<rparr>)) \<and>
   frames_asr (one_frame_session\<lparr>is_speaking := JBool False\<rparr>) \<noteq> [] \<and>
   client_stop_flush quiet_env (one_frame_session\<lparr>is_speaking := JBool False\<rparr>) =
     (init_session\<lparr>is_speaking := JBool False, speech_start_i := Some (- 1)\<rparr>,
      [Call_offline [1], Gen_asr [1],
       Send_result (JStr ''2pass-offline'') ''hello'' (JStr ''microphone'') (JBool False)]) \<and>
   frames (init_session\<lparr>is_speaking := JBool False, speech_start_i := Some (- 1)\<rparr>) = []"
proof -
  have run: "vad_end_flush vad_end_env one_frame_session =
     (init_session\<lparr>speech_start_i := Some (- 1), frames := [[1]]\<rparr>,
      [Call_offline [1], Gen_asr [1],
       Send_result (JStr ''2pass-offline'') ''hello'' (JStr ''microphone'') (JBool True)])"
    "client_stop_flush quiet_env (one_frame_session\<lparr>is_speaking := JBool False\<rparr>) =
     (init_session\<lparr>is_speaking := JBool False, speech_start_i := Some (- 1)\<rparr>,
      [Call_offline [1], Gen_asr [1],
       Send_result (JStr ''2pass-offline'') ''hello'' (JStr ''microphone'') (JBool False)])"
    by (simp_all add: handler_defs scenario_defs)
  have hyp: "\<not> truthy (is_speaking (one_frame_session\<lparr>is_speaking := JBool False\<rparr>))"
    "frames_asr (one_frame_session\<lparr>is_speaking := JBool False\<rparr>) \<noteq> []"
    by (simp_all add: scenario_defs)
  from flush_paths_reset [of one_frame_session vad_end_env
      "init_session\<lparr>speech_start_i := Some (- 1), frames := [[1]]\<rparr>"
      "[Call_offline [1], Gen_asr [1],
       Send_result (JStr ''2pass-offline'') ''hello'' (JStr ''microphone'') (JBool True)]"]
    flush_paths_reset [of "one_frame_session\<lparr>is_speaking := JBool False\<rparr>" quiet_env
      "init_session\<lparr>is_speaking := JBool False, speech_start_i := Some (- 1)\<rparr>"
      "[Call_offline [1], Gen_asr [1],
       Send_result (JStr ''2pass-offline'') ''hello'' (JStr ''microphone'') (JBool False)]"]
    run hyp
  show ?thesis by blast
qed

text \<open>
  C6, as stated, fails: one audio frame on which the VAD reports a speech end runs the
  VAD flush (the offline pass is called), and afterwards the frame is still retained and
  the VAD cache is not empty.
\<close>

theorem flush_paths_same_reset_counterexample:
  "map_sum id frames (fst (ws_serve vad_end_env [Binary [1]])) = Inr [[1]] \<and>
   map_sum id vad_cache (fst (ws_serve vad_end_env [Binary [1]])) = Inr [(''stats'', JInt 1)] \<and>
   map_sum id frames_asr (fst (ws_serve vad_end_env [Binary [1]])) = Inr [] \<and>
   filter is_call_offline (snd (ws_serve vad_end_env [Binary [1]])) = [Call_offline [1]]"
  by (simp add: handler_defs scenario_defs)

subsection \<open>The reset at a speech end does not depend on the mode\<close>

text \<open>
  C9. Whatever the mode, after an audio frame for which \<open>speech_end_i\<close> is not -1 the
  offline and online queues are empty, the online cache is the empty dict and the
  retained frames are the last 20 of those received; when the mode is neither "2pass" nor
  "offline" the offline pass is not called in that step.
\<close>

theorem vad_end_resets_any_mode:
  "step E s (Binary f) = (Inr s', ev) \<and> speech_end_i s' \<noteq> - 1 \<longrightarrow>
     frames_asr s' = [] \<and> frames_asr_online s' = [] \<and> asr_online_cache s' = [] \<and>
     frames s' = drop (length (frames s @ [f]) - 20) (frames s @ [f]) \<and>
     (mode s \<noteq> JStr ''2pass'' \<and> mode s \<noteq> JStr ''offline'' \<longrightarrow>
        filter is_call_offline ev = [])"
proof
  assume a: "step E s (Binary f) = (Inr s', ev) \<and> speech_end_i s' \<noteq> - 1"
  then have b: "on_binary E s f = (Inr s', ev)" by simp
  have "mode s \<noteq> JStr ''2pass'' \<and> mode s \<noteq> JStr ''offline'' \<longrightarrow> filter is_call_offline ev = []"
    using on_binary_no_offline [of s E f] b by simp
  with on_binary_state(1) [OF b] a
  show "frames_asr s' = [] \<and> frames_asr_online s' = [] \<and> asr_online_cache s' = [] \<and>
     frames s' = drop (length (frames s @ [f]) - 20) (frames s @ [f]) \<and>
     (mode s \<noteq> JStr ''2pass'' \<and> mode s \<noteq> JStr ''offline'' \<longrightarrow>
        filter is_call_offline ev = [])"
    by blast
qed


theorem vad_end_resets_any_mode_witness:
  "step vad_end_env (init_session\<lparr>mode := JStr ''online''\<rparr>) (Binary [1]) =
     (Inr (init_session\<lparr>mode := JStr ''online'', vad_cache := [(''stats'', JInt 1)],
             speech_start_i := Some (- 1), speech_end_i := 3200, frames := [[1]]\<rparr>),
      [Gen_vad [1]]) \<and>
   speech_end_i (init_session\<lparr>mode := JStr ''online'', vad_cache := [(''stats'', JInt 1)],
             speech_start_i := Some (- 1), speech_end_i := 3200, frames := [[1]]\<rparr>) \<noteq> - 1 \<and>
   mode (init_session\<lparr>mode := JStr ''online''\<rparr>) \<noteq> JStr ''2pass'' \<and>
   mode (init_session\<lparr>mode := JStr ''online''\<rparr>) \<noteq> JStr ''offline'' \<and>
   filter is_call_offline [Gen_vad [1]] = []"
proof -
  have run: "step vad_end_env (init_session\<lparr>mode := JStr ''online''\<rparr>) (Binary [1]) =
     (Inr (init_session\<lparr>mode := JStr ''online'', vad_cache := [(''stats'', JInt 1)],
             speech_start_i := Some (- 1), speech_end_i := 3200, frames := [[1]]\<rparr>),
      [Gen_vad [1]])"
    by (simp add: handler_defs scenario_defs)
  have hyp: "speech_end_i (init_session\<lparr>mode := JStr ''online'',
      vad_cache := [(''stats'', JInt 1)], speech_start_i := Some (- 1), speech_end_i := 3200,
      frames := [[1]]\<rparr>) \<noteq> - 1"
    "mode (init_session\<lparr>mode := JStr ''online''\<rparr>) \<noteq> JStr ''2pass''"
    "mode (init_session\<lparr>mode := JStr ''online''\<rparr>) \<noteq> JStr ''offline''"
    by simp_all
  from vad_end_resets_any_mode [of vad_end_env "init_session\<lparr>mode := JStr ''online''\<rparr>"
      "[1]" "init_session\<lparr>mode := JStr ''online'', vad_cache := [(''stats'', JInt 1)],
             speech_start_i := Some (- 1), speech_end_i := 3200, frames := [[1]]\<rparr>"
      "[Gen_vad [1]]"] run hyp
  show ?thesis by blast
qed

subsection \<open>The schedule of the online pass\<close>



subsection \<open>No offline pass without audio\<close>

text \<open>
  C7. After a step that was a speech-end trigger (a control message with a false
  \<open>is_speaking\<close>, or an audio frame for which \<open>speech_end_i\<close> is not -1), control
  messages alone, among them a second stop of the client, never enter the offline pass nor
  call the offline engine; and the offline pass entered with empty audio returns without
  calling the engine.
\<close>

theorem no_offline_pass_without_audio:
  "(loads E t = Inr (JObj mj) \<and> map_of mj ''type'' \<noteq> Some (JStr ''ping'') \<and>
    map_of mj ''is_speaking'' = Some v \<and> \<not> truthy v \<and> step E s (Text t) = (Inr s1, ev1)
      \<longrightarrow> filter is_call_offline (snd (ws_loop E s1 (map Text ts))) = [] \<and>
          filter is_gen_asr (snd (ws_loop E s1 (map Text ts))) = []) \<and>
   (step E s (Binary f) = (Inr s1, ev1) \<and> speech_end_i s1 \<noteq> - 1
      \<longrightarrow> filter is_call_offline (snd (ws_loop E s1 (map Text ts))) = [] \<and>
          filter is_gen_asr (snd (ws_loop E s1 (map Text ts))) = []) \<and>
   process_asr_offline E s [] = (Inr (), s, [Call_offline []])"
  (is "(?stop \<longrightarrow> ?none) \<and> (?vad \<longrightarrow> ?none) \<and> ?guard")
proof (intro conjI)
  show "?stop \<longrightarrow> ?none"
  proof
    assume ?stop
    then have "frames_asr s1 = []"
      using text_trigger_empties by blast
    then show ?none by (rule texts_no_audio)
  qed
  show "?vad \<longrightarrow> ?none"
  proof
    assume a: ?vad
    then have "on_binary E s f = (Inr s1, ev1)" by simp
    from on_binary_state(1) [OF this] a have "frames_asr s1 = []" by simp
    then show ?none by (rule texts_no_audio)
  qed
  show ?guard by (simp add: process_asr_offline_def)
qed

theorem no_offline_pass_without_audio_witness:
  "loads quiet_env stop_text = Inr (JObj [(''is_speaking'', JBool False)]) \<and>
   \<not> truthy (JBool False) \<and>
   step quiet_env one_frame_session (Text stop_text) =
     (Inr (init_session\<lparr>is_speaking := JBool False, asr_online_is_final := True,
             speech_start_i := Some (- 1)\<rparr>),
      [Call_offline [1], Gen_asr [1],
       Send_result (JStr ''2pass-offline'') ''hello'' (JStr ''microphone'') (JBool False)]) \<and>
   ws_loop quiet_env (init_session\<lparr>is_speaking := JBool False, asr_online_is_final := True,
             speech_start_i := Some (- 1)\<rparr>) (map Text [stop_text]) =
     (Inr (init_session\<lparr>is_speaking := JBool False, asr_online_is_final := True,
             speech_start_i := Some (- 1)\<rparr>), []) \<and>
   step vad_end_env one_frame_session (Binary [2]) =
     (Inr (init_session\<lparr>vad_cache := [(''stats'', JInt 1)], speech_start_i := Some (- 1),
             speech_end_i := 3200, frames := [[1], [2]]\<rparr>),
      [Gen_vad [2], Call_offline [1, 2], Gen_asr [1, 2],
       Send_result (JStr ''2pass-offline'') ''hello'' (JStr ''microphone'') (JBool True)]) \<and>
   speech_end_i (init_session\<lparr>vad_cache := [(''stats'', JInt 1)],
     speech_start_i := Some (- 1), speech_end_i := 3200, frames := [[1], [2]]\<rparr>) \<noteq> - 1 \<and>
   snd (ws_loop vad_end_env (init_session\<lparr>vad_cache := [(''stats'', JInt 1)],
     speech_start_i := Some (- 1), speech_end_i := 3200, frames := [[1], [2]]\<rparr>)
       (map Text [stop_text])) = []"
proof -
  have hyp: "loads quiet_env stop_text = Inr (JObj [(''is_speaking'', JBool False)])"
    "map_of [(''is_speaking'', JBool False)] ''type'' \<noteq> Some (JStr ''ping'')"
    "map_of [(''is_speaking'', JBool False)] ''is_speaking'' = Some (JBool False)"
    "\<not> truthy (JBool False)"
    "speech_end_i (init_session\<lparr>vad_cache := [(''stats'', JInt 1)],
       speech_start_i := Some (- 1), speech_end_i := 3200, frames := [[1], [2]]\<rparr>) \<noteq> - 1"
    by (simp_all add: scenario_defs)
  have run: "step quiet_env one_frame_session (Text stop_text) =
     (Inr (init_session\<lparr>is_speaking := JBool False, asr_online_is_final := True,
             speech_start_i := Some (- 1)\<rparr>),
      [Call_offline [1], Gen_asr [1],
       Send_result (JStr ''2pass-offline'') ''hello'' (JStr ''microphone'') (JBool False)])"
    "ws_loop quiet_env (init_session\<lparr>is_speaking := JBool False, asr_online_is_final := True,
             speech_start_i := Some (- 1)\<rparr>) (map Text [stop_text]) =
     (Inr (init_session\<lparr>is_speaking := JBool False, asr_online_is_final := True,
             speech_start_i := Some (- 1)\<rparr>), [])"
    "step vad_end_env one_frame_session (Binary [2]) =
     (Inr (init_session\<lparr>vad_cache := [(''stats'', JInt 1)], speech_start_i := Some (- 1),
             speech_end_i := 3200, frames := [[1], [2]]\<rparr>),
      [Gen_vad [2], Call_offline [1, 2], Gen_asr [1, 2],
       Send_result (JStr ''2pass-offline'') ''hello'' (JStr ''microphone'') (JBool True)])"
    "snd (ws_loop vad_end_env (init_session\<lparr>vad_cache := [(''stats'', JInt 1)],
       speech_start_i := Some (- 1), speech_end_i := 3200, frames := [[1], [2]]\<rparr>)
       (map Text [stop_text])) = []"
    by (simp_all add: handler_defs scenario_defs)
  from no_offline_pass_without_audio [of quiet_env stop_text
      "[(''is_speaking'', JBool False)]" "JBool False" one_frame_session
      "init_session\<lparr>is_speaking := JBool False, asr_online_is_final := True,
             speech_start_i := Some (- 1)\<rparr>"
      "[Call_offline [1], Gen_asr [1],
       Send_result (JStr ''2pass-offline'') ''hello'' (JStr ''microphone'') (JBool False)]"
      "[stop_text]"]
    no_offline_pass_without_audio [of vad_end_env "[]" "[]" JNull one_frame_session
      "init_session\<lparr>vad_cache := [(''stats'', JInt 1)], speech_start_i := Some (- 1),
             speech_end_i := 3200, frames := [[1], [2]]\<rparr>"
      "[Gen_vad [2], Call_offline [1, 2], Gen_asr [1, 2],
       Send_result (JStr ''2pass-offline'') ''hello'' (JStr ''microphone'') (JBool True)]"
      "[stop_text]" "[2]"]
    hyp run
  show ?thesis by blast
qed

end
